theory Spec2Isabelle
  imports Complex_Main "HOL-Library.Sublist"
begin

section \<open>Timing arithmetic (index.js, lines 8-23)\<close>

text \<open>
  \<^verbatim>\<open>process.hrtime()\<close> returns a pair \<^verbatim>\<open>[seconds, nanoseconds]\<close> of integers.
  The timings object of a probe maps phase names to such pairs; a phase whose event
  has not fired is an absent key (\<^verbatim>\<open>undefined\<close> in the source).
\<close>

type_synonym hrtime = "int \<times> int"

type_synonym timing_events = "string \<rightharpoonup> hrtime"

text \<open>
  \<^verbatim>\<open>Math.round\<close> rounds to the nearest integer, a tie going towards plus infinity:
  it is \<open>\<lfloor>x + 1/2\<rfloor>\<close>.
\<close>

definition math_round :: "rat \<Rightarrow> int" where
  "math_round x = \<lfloor>x + 1 / 2\<rfloor>"

text \<open>
  \<^verbatim>\<open>const hrToMs = (timing) => Math.round(timing[0] * 1000 + timing[1] / 1000000)\<close>

  The source computes the argument of \<^verbatim>\<open>Math.round\<close> in double precision; the model
  computes it exactly. The two agree while the argument stays below \<open>2\<^sup>3\<^sup>3\<close>
  milliseconds (readings of \<^verbatim>\<open>process.hrtime\<close> up to about 99 days): there doubles
  are less than \<open>10\<^sup>-\<^sup>6\<close> apart, the ties \<open>k + 1/2\<close> are doubles, and every other
  exact value is at least \<open>10\<^sup>-\<^sup>6\<close> away from a tie, so that rounding the sum to a
  double never reaches or crosses a tie. For larger readings (from about
  \<open>1.7 \<times> 10\<^sup>7\<close> seconds on) the double sum loses the last nanoseconds and the
  source's result can be one more or less than the model's. All statements below
  about concrete instants use readings of a few seconds.
\<close>

definition hrToMs :: "hrtime \<Rightarrow> int" where
  "hrToMs timing = math_round (of_int (fst timing) * 1000 + of_int (snd timing) / 1000000)"

text \<open>\<^verbatim>\<open>const hrDiff = (start, end) => hrToMs(end) - hrToMs(start)\<close>\<close>

definition hrDiff :: "hrtime \<Rightarrow> hrtime \<Rightarrow> int" where
  "hrDiff start end = hrToMs end - hrToMs start"

text \<open>
  JavaScript's \<^verbatim>\<open>x || y\<close> on numbers: \<^verbatim>\<open>x\<close> when it is truthy, that is non-zero
  (a difference of two integers is never \<^verbatim>\<open>NaN\<close>), else \<^verbatim>\<open>y\<close>.
\<close>

definition js_or :: "int \<Rightarrow> int \<Rightarrow> int" where
  "js_or x y = (if x = 0 then y else x)"

text \<open>
  \<^verbatim>\<open>const timingsDiff = (timings, key1, key2) =>
    (timings[key1] && timings[key2] && hrDiff(timings[key1], timings[key2])) || -1\<close>

  A recorded timestamp is an array and so truthy; an absent one is \<^verbatim>\<open>undefined\<close>,
  which short-circuits the conjunction and makes the disjunction yield \<open>-1\<close>.
\<close>

definition timingsDiff :: "timing_events \<Rightarrow> string \<Rightarrow> string \<Rightarrow> int" where
  "timingsDiff timings key1 key2 =
     (case timings key1 of
        None \<Rightarrow> - 1
      | Some t1 \<Rightarrow>
          (case timings key2 of
             None \<Rightarrow> - 1
           | Some t2 \<Rightarrow> js_or (hrDiff t1 t2) (- 1)))"

record durations =
  dur_lookup :: int
  dur_connect :: int
  dur_secureConnect :: int
  dur_readable :: int
  dur_close :: int
  dur_total :: int

definition processTimings :: "timing_events \<Rightarrow> durations" where
  "processTimings timings =
     \<lparr> dur_lookup = timingsDiff timings ''start'' ''lookup'',
       dur_connect = timingsDiff timings ''lookup'' ''connect'',
       dur_secureConnect = timingsDiff timings ''connect'' ''secureConnect'',
       dur_readable = js_or (timingsDiff timings ''secureConnect'' ''readable'')
                            (timingsDiff timings ''connect'' ''readable''),
       dur_close = timingsDiff timings ''readable'' ''close'',
       dur_total = timingsDiff timings ''start'' ''close'' \<rparr>"

section \<open>JavaScript values (truthiness, template strings)\<close>

text \<open>
  An optional string field of a JSON object is a \<open>string option\<close>, \<open>None\<close> being
  \<^verbatim>\<open>undefined\<close>. \<^verbatim>\<open>a || b\<close> yields \<^verbatim>\<open>a\<close> unless it is falsy: absent or the
  empty string.
\<close>

definition js_or_str :: "string option \<Rightarrow> string option \<Rightarrow> string option" where
  "js_or_str a b = (case a of None \<Rightarrow> b | Some s \<Rightarrow> if s = [] then b else Some s)"

text \<open>Interpolation \<^verbatim>\<open>${x}\<close> in a template string.\<close>

definition tpl_str :: "string option \<Rightarrow> string" where
  "tpl_str a = (case a of None \<Rightarrow> ''undefined'' | Some s \<Rightarrow> s)"

definition digit_char :: "nat \<Rightarrow> char" where
  "digit_char d = ''0123456789'' ! d"

fun string_of_nat :: "nat \<Rightarrow> string" where
  "string_of_nat n =
     (if n < 10 then [digit_char n] else string_of_nat (n div 10) @ [digit_char (n mod 10)])"

declare string_of_nat.simps [simp del]

definition string_of_int :: "int \<Rightarrow> string" where
  "string_of_int i = (if i < 0 then CHR ''-'' # string_of_nat (nat (- i)) else string_of_nat (nat i))"

definition tpl_num :: "int option \<Rightarrow> string" where
  "tpl_num a = (case a of None \<Rightarrow> ''undefined'' | Some i \<Rightarrow> string_of_int i)"

section \<open>Targets, events and probe results (index.js, lines 177-199)\<close>

record target =
  tname :: "string option"
  url :: "string option"
  hostname :: "string option"
  port :: "int option"
  ttype :: "string option"
  tcomponent :: "string option"

record event =
  targets :: "target list option"
  logTimings :: "string list option"
  namespace :: "string option"
  timeout :: "int option"
  api_host :: "string option"
  api_key :: "string option"

text \<open>
  The object \<^verbatim>\<open>data\<close> that a probe fills in and resolves with. \<^verbatim>\<open>statusCode\<close> and
  \<^verbatim>\<open>durations\<close> are absent until a handler assigns them.
\<close>

record probe_data =
  name :: "string option"
  timings :: timing_events
  component :: "string option"
  statusCode :: "int option"
  durations :: "durations option"

definition init_data :: "target \<Rightarrow> hrtime \<Rightarrow> probe_data" where
  "init_data tg now =
     \<lparr> name = js_or_str (tname tg) (url tg),
       timings = [''start'' \<mapsto> now],
       component = tcomponent tg,
       statusCode = None,
       durations = None \<rparr>"

text \<open>\<^verbatim>\<open>data.timings[key] = hrtime()\<close>\<close>

definition record_timing :: "string \<Rightarrow> hrtime \<Rightarrow> probe_data \<Rightarrow> probe_data" where
  "record_timing key now d = d\<lparr>timings := (timings d)(key \<mapsto> now)\<rparr>"

text \<open>\<^verbatim>\<open>data.durations = processTimings(data.timings)\<close>\<close>

definition finalize :: "probe_data \<Rightarrow> probe_data" where
  "finalize d = d\<lparr>durations := Some (processTimings (timings d))\<rparr>"

datatype js_exception = TypeError

text \<open>
  The promise created for a target. \<^verbatim>\<open>resolve(data)\<close> hands over the object
  \<^verbatim>\<open>data\<close> itself: a fulfilled promise refers to \<open>pdata\<close>, whose fields later
  handlers may still assign, and a reader of the promise's value sees \<open>pdata\<close> as it
  is when it reads. Calling \<^verbatim>\<open>resolve\<close> on a pending promise fulfils it; on a
  settled promise the call has no effect. \<open>resolve_calls\<close> counts the invocations
  of \<^verbatim>\<open>resolve\<close>. No handler calls \<^verbatim>\<open>reject\<close>; the promise is rejected when the
  function passed to \<^verbatim>\<open>new Promise\<close> throws.
\<close>

datatype promise_state = Pending | Fulfilled | Rejected js_exception

record probe =
  pdata :: probe_data
  promise :: promise_state
  resolve_calls :: nat

definition resolve :: "'a probe_scheme \<Rightarrow> 'a probe_scheme" where
  "resolve s =
     s\<lparr> promise := (case promise s of Pending \<Rightarrow> Fulfilled | p \<Rightarrow> p),
        resolve_calls := Suc (resolve_calls s) \<rparr>"

text \<open>
  \<^verbatim>\<open>new Promise((resolve, reject) => { ... })\<close> in \<^verbatim>\<open>exports.handler\<close>: the body
  runs one of the three handlers; when it throws, the promise is rejected with the
  exception, otherwise the promise is in the state the handler left it in.
\<close>

definition executor_promise :: "js_exception + 'a probe_scheme \<Rightarrow> promise_state" where
  "executor_promise r = (case r of Inl e \<Rightarrow> Rejected e | Inr s \<Rightarrow> promise s)"

text \<open>The value a \<^verbatim>\<open>then\<close> callback reads from the promise at this moment.\<close>

definition promise_value :: "'a probe_scheme \<Rightarrow> probe_data option" where
  "promise_value s = (case promise s of Fulfilled \<Rightarrow> Some (pdata s) | _ \<Rightarrow> None)"

definition defaultTimeout :: int where
  "defaultTimeout = 5000"

text \<open>\<^verbatim>\<open>event.timeout || defaultTimeout\<close>\<close>

definition probe_timeout :: "event \<Rightarrow> int" where
  "probe_timeout ev = (case timeout ev of None \<Rightarrow> defaultTimeout | Some n \<Rightarrow> js_or n defaultTimeout)"

section \<open>The HTTP(S) check (index.js, lines 259-285)\<close>

text \<open>
  The listeners of \<^verbatim>\<open>handlers.http\<close>, one constructor per event the source
  subscribes to. \<open>Response code\<close> is the callback of \<^verbatim>\<open>createRequest\<close>, which
  registers the two \<^verbatim>\<open>once\<close> listeners; \<open>TimerFired\<close> is the callback of
  \<^verbatim>\<open>setTimeout\<close>, which aborts the request. \<^verbatim>\<open>request.setTimeout(1)\<close> registers no
  listener, so no code of the source runs on that timeout.
\<close>

datatype http_event =
    Response int
  | ResReadable
  | ResEnd
  | SocketLookup
  | SocketConnect
  | SocketSecureConnect
  | TimerFired
  | ReqClose
  | ReqError

record http_probe = probe +
  timer_pending :: bool
  request_aborted :: bool
  readable_once :: bool
  end_once :: bool

definition http_init :: "target \<Rightarrow> hrtime \<Rightarrow> http_probe" where
  "http_init tg now =
     \<lparr> pdata = init_data tg now, promise = Pending, resolve_calls = 0,
       timer_pending = True, request_aborted = False,
       readable_once = False, end_once = False \<rparr>"

text \<open>
  \<^verbatim>\<open>const createRequest = function(url, callback) {
    const handler = url.startsWith("http://") ? http : https
    return handler.get(url, callback) }\<close>

  \<^verbatim>\<open>url.startsWith\<close> throws a \<^verbatim>\<open>TypeError\<close> when the target has no \<^verbatim>\<open>url\<close>.
  \<^verbatim>\<open>handler.get\<close> belongs to the runtime library: \<open>get_throws\<close> is the exception it
  throws, if it throws one.
\<close>

datatype http_module = HttpModule | HttpsModule

definition createRequest :: "string option \<Rightarrow> js_exception option \<Rightarrow> js_exception + http_module" where
  "createRequest u get_throws =
     (case u of
        None \<Rightarrow> Inl TypeError
      | Some address \<Rightarrow>
          (case get_throws of
             Some e \<Rightarrow> Inl e
           | None \<Rightarrow> Inr (if prefix ''http://'' address then HttpModule else HttpsModule)))"

text \<open>
  The body of \<^verbatim>\<open>handlers.http\<close>: the request is created first; when that throws,
  no listener is registered.
\<close>

definition handlers_http :: "target \<Rightarrow> hrtime \<Rightarrow> js_exception option \<Rightarrow> js_exception + http_probe" where
  "handlers_http tg now get_throws =
     (case createRequest (url tg) get_throws of
        Inl e \<Rightarrow> Inl e
      | Inr _ \<Rightarrow> Inr (http_init tg now))"

text \<open>Each handler reads \<^verbatim>\<open>hrtime()\<close> when it runs: the argument \<open>now\<close>.\<close>

fun http_on :: "http_event \<Rightarrow> hrtime \<Rightarrow> http_probe \<Rightarrow> http_probe" where
  "http_on (Response code) now s =
     s\<lparr> pdata := (pdata s)\<lparr>statusCode := Some code\<rparr>,
        readable_once := True, end_once := True \<rparr>"
| "http_on ResReadable now s =
     (if readable_once s
      then s\<lparr>pdata := record_timing ''readable'' now (pdata s), readable_once := False\<rparr>
      else s)"
| "http_on ResEnd now s =
     (if end_once s
      then s\<lparr>pdata := record_timing ''end'' now (pdata s), end_once := False\<rparr>
      else s)"
| "http_on SocketLookup now s = s\<lparr>pdata := record_timing ''lookup'' now (pdata s)\<rparr>"
| "http_on SocketConnect now s = s\<lparr>pdata := record_timing ''connect'' now (pdata s)\<rparr>"
| "http_on SocketSecureConnect now s =
     s\<lparr>pdata := record_timing ''secureConnect'' now (pdata s)\<rparr>"
| "http_on TimerFired now s =
     (if timer_pending s then s\<lparr>timer_pending := False, request_aborted := True\<rparr> else s)"
| "http_on ReqClose now s =
     resolve (s\<lparr> pdata := finalize (record_timing ''close'' now (pdata s)),
                 timer_pending := False \<rparr>)"
| "http_on ReqError now s =
     resolve
       (s\<lparr> pdata :=
             (let d = finalize (record_timing ''close'' now (pdata s))
              in d\<lparr>statusCode := (case statusCode d of None \<Rightarrow> Some 0 | Some c \<Rightarrow> Some c)\<rparr>),
           timer_pending := False \<rparr>)"

fun http_run :: "(http_event \<times> hrtime) list \<Rightarrow> http_probe \<Rightarrow> http_probe" where
  "http_run [] s = s"
| "http_run ((e, now) # es) s = http_run es (http_on e now s)"

section \<open>The port check (index.js, lines 290-330)\<close>

datatype socket_event =
    SockConnect
  | SockLookup
  | SockData string
  | SockEnd
  | SockError
  | SockTimeout
  | SockClose

record port_probe = probe +
  socket_ended :: bool
  socket_destroyed :: bool

definition port_init :: "target \<Rightarrow> hrtime \<Rightarrow> port_probe" where
  "port_init tg now =
     \<lparr> pdata = init_data tg now, promise = Pending, resolve_calls = 0,
       socket_ended = False, socket_destroyed = False \<rparr>"

text \<open>
  The body of \<^verbatim>\<open>handlers.port\<close>: the listeners are registered, then
  \<^verbatim>\<open>socket.connect\<close> is called. \<^verbatim>\<open>socket.connect\<close> belongs to the runtime library:
  \<open>connect_throws\<close> is the exception it throws, if it throws one.
\<close>

definition handlers_port :: "target \<Rightarrow> hrtime \<Rightarrow> js_exception option \<Rightarrow> js_exception + port_probe" where
  "handlers_port tg now connect_throws =
     (case connect_throws of Some e \<Rightarrow> Inl e | None \<Rightarrow> Inr (port_init tg now))"

fun port_on :: "socket_event \<Rightarrow> hrtime \<Rightarrow> port_probe \<Rightarrow> port_probe" where
  "port_on SockConnect now s = s\<lparr>pdata := record_timing ''connect'' now (pdata s)\<rparr>"
| "port_on SockLookup now s = s\<lparr>pdata := record_timing ''lookup'' now (pdata s)\<rparr>"
| "port_on (SockData chunk) now s =
     s\<lparr>pdata := record_timing ''readable'' now (pdata s), socket_ended := True\<rparr>"
| "port_on SockEnd now s = s\<lparr>pdata := record_timing ''end'' now (pdata s)\<rparr>"
| "port_on SockError now s =
     resolve (s\<lparr> pdata := (finalize (record_timing ''close'' now (pdata s)))
                            \<lparr>statusCode := Some (- 1)\<rparr>,
                 socket_destroyed := True \<rparr>)"
| "port_on SockTimeout now s =
     resolve (s\<lparr> pdata := (finalize (record_timing ''close'' now (pdata s)))
                            \<lparr>statusCode := Some (- 1)\<rparr>,
                 socket_destroyed := True \<rparr>)"
| "port_on SockClose now s =
     resolve (s\<lparr> pdata := (finalize (record_timing ''close'' now (pdata s)))
                            \<lparr>statusCode := Some 0\<rparr>,
                 socket_destroyed := True \<rparr>)"

fun port_run :: "(socket_event \<times> hrtime) list \<Rightarrow> port_probe \<Rightarrow> port_probe" where
  "port_run [] s = s"
| "port_run ((e, now) # es) s = port_run es (port_on e now s)"

section \<open>The SMTP check (index.js, lines 332-381)\<close>

text \<open>
  The socket decodes to strings (\<^verbatim>\<open>setEncoding("utf8")\<close>); the regular expressions
  \<^verbatim>\<open>/^220/\<close> and \<^verbatim>\<open>/^250/\<close> carry no flag, so they match exactly the chunks that
  begin with these three characters. \<open>socket_written\<close> lists what was written to the
  socket, oldest first.
\<close>

record smtp_probe = port_probe +
  smtpFlags_greeting :: bool
  socket_written :: "string list"

definition ehlo :: string where
  "ehlo = ''EHLO lambda-watchtower.test'' @ [CHR 0x0D, CHR 0x0A]"

definition smtp_init :: "target \<Rightarrow> hrtime \<Rightarrow> smtp_probe" where
  "smtp_init tg now =
     \<lparr> pdata = init_data tg now, promise = Pending, resolve_calls = 0,
       socket_ended = False, socket_destroyed = False,
       smtpFlags_greeting = False, socket_written = [] \<rparr>"

text \<open>The body of \<^verbatim>\<open>handlers.smtp\<close>, as for the port check.\<close>

definition handlers_smtp :: "target \<Rightarrow> hrtime \<Rightarrow> js_exception option \<Rightarrow> js_exception + smtp_probe" where
  "handlers_smtp tg now connect_throws =
     (case connect_throws of Some e \<Rightarrow> Inl e | None \<Rightarrow> Inr (smtp_init tg now))"

fun smtp_on :: "socket_event \<Rightarrow> hrtime \<Rightarrow> smtp_probe \<Rightarrow> smtp_probe" where
  "smtp_on SockConnect now s = s\<lparr>pdata := record_timing ''connect'' now (pdata s)\<rparr>"
| "smtp_on SockLookup now s = s\<lparr>pdata := record_timing ''lookup'' now (pdata s)\<rparr>"
| "smtp_on (SockData smtpdata) now s =
     (if prefix ''220'' smtpdata \<and> \<not> smtpFlags_greeting s
      then s\<lparr>socket_written := socket_written s @ [ehlo], smtpFlags_greeting := True\<rparr>
      else if prefix ''250'' smtpdata
      then s\<lparr>pdata := record_timing ''readable'' now (pdata s), socket_ended := True\<rparr>
      else s)"
| "smtp_on SockEnd now s = s\<lparr>pdata := record_timing ''end'' now (pdata s)\<rparr>"
| "smtp_on SockError now s =
     resolve (s\<lparr> pdata := (finalize (record_timing ''close'' now (pdata s)))
                            \<lparr>statusCode := Some (- 1)\<rparr>,
                 socket_destroyed := True \<rparr>)"
| "smtp_on SockTimeout now s =
     resolve (s\<lparr> pdata := (finalize (record_timing ''close'' now (pdata s)))
                            \<lparr>statusCode := Some (- 1)\<rparr>,
                 socket_destroyed := True \<rparr>)"
| "smtp_on SockClose now s =
     resolve (s\<lparr> pdata := (finalize (record_timing ''close'' now (pdata s)))
                            \<lparr>statusCode := Some 0\<rparr>,
                 socket_destroyed := True \<rparr>)"

fun smtp_run :: "(socket_event \<times> hrtime) list \<Rightarrow> smtp_probe \<Rightarrow> smtp_probe" where
  "smtp_run [] s = s"
| "smtp_run ((e, now) # es) s = smtp_run es (smtp_on e now s)"

section \<open>Dispatch of the targets (index.js, lines 177-199)\<close>

datatype check = HttpCheck | PortCheck | SmtpCheck

text \<open>
  The \<^verbatim>\<open>switch (target.type)\<close> compares with strict equality, the HTTP handler
  being the \<^verbatim>\<open>default\<close> branch.
\<close>

definition select_handler :: "string option \<Rightarrow> check" where
  "select_handler ty =
     (if ty = Some ''smtp'' then SmtpCheck
      else if ty = Some ''port'' then PortCheck
      else HttpCheck)"

record launched =
  l_check :: check
  l_target :: target
  l_data :: probe_data

definition launch :: "target \<Rightarrow> hrtime \<Rightarrow> launched" where
  "launch tg now =
     \<lparr> l_check = select_handler (ttype tg), l_target = tg, l_data = init_data tg now \<rparr>"

text \<open>
  The synchronous part of \<^verbatim>\<open>exports.handler\<close>: the check of \<^verbatim>\<open>event.targets\<close>
  and the \<^verbatim>\<open>targets.map\<close> that starts one probe per target. The callback is called
  when \<^verbatim>\<open>targets\<close> is falsy, and the function goes on (there is no \<^verbatim>\<open>return\<close>)
  to \<^verbatim>\<open>targets.map\<close>, which throws a \<^verbatim>\<open>TypeError\<close> on \<^verbatim>\<open>undefined\<close> before any
  probe is started. \<open>clock i\<close> is the reading of \<^verbatim>\<open>hrtime()\<close> taken for the target
  at index \<open>i\<close>.
\<close>

record handler_outcome =
  callback_errors :: "string list"
  probes :: "launched list"
  thrown :: "js_exception option"

definition handler_sync :: "event \<Rightarrow> (nat \<Rightarrow> hrtime) \<Rightarrow> handler_outcome" where
  "handler_sync ev clock =
     (let called = (case targets ev of None \<Rightarrow> [''No targets given''] | Some _ \<Rightarrow> [])
      in case targets ev of
           None \<Rightarrow> \<lparr> callback_errors = called, probes = [], thrown = Some TypeError \<rparr>
         | Some ts \<Rightarrow>
             \<lparr> callback_errors = called,
               probes = map (\<lambda>(i, tg). launch tg (clock i)) (enumerate 0 ts),
               thrown = None \<rparr>)"

section \<open>Metric records (index.js, lines 201-220)\<close>

text \<open>
  A value read from a JavaScript object: a number, \<^verbatim>\<open>undefined\<close>, or a member that
  every plain object inherits from \<^verbatim>\<open>Object.prototype\<close> (named by its key).
\<close>

datatype js_value = JsUndefined | JsNumber int | JsInherited string

definition js_number :: "int option \<Rightarrow> js_value" where
  "js_number a = (case a of None \<Rightarrow> JsUndefined | Some i \<Rightarrow> JsNumber i)"

definition object_prototype_keys :: "string list" where
  "object_prototype_keys =
     [''constructor'', ''hasOwnProperty'', ''isPrototypeOf'', ''propertyIsEnumerable'',
      ''toLocaleString'', ''toString'', ''valueOf'', ''__proto__'',
      ''__defineGetter__'', ''__defineSetter__'', ''__lookupGetter__'', ''__lookupSetter__'']"

text \<open>
  \<^verbatim>\<open>result.durations[timing]\<close>: the six keys of the object that \<^verbatim>\<open>processTimings\<close>
  builds are numbers; a key of \<^verbatim>\<open>Object.prototype\<close> reads the inherited member; any
  other key reads \<^verbatim>\<open>undefined\<close>.
\<close>

definition duration_get :: "durations \<Rightarrow> string \<Rightarrow> js_value" where
  "duration_get d key =
     (if key = ''lookup'' then JsNumber (dur_lookup d)
      else if key = ''connect'' then JsNumber (dur_connect d)
      else if key = ''secureConnect'' then JsNumber (dur_secureConnect d)
      else if key = ''readable'' then JsNumber (dur_readable d)
      else if key = ''close'' then JsNumber (dur_close d)
      else if key = ''total'' then JsNumber (dur_total d)
      else if key \<in> set object_prototype_keys then JsInherited key
      else JsUndefined)"

record dimension =
  Name :: "string option"
  DimValue :: string

record metric =
  MetricName :: string
  Dimensions :: "dimension list"
  Value :: js_value
  Unit :: "string option"
  Timestamp :: nat

definition status_metric :: "nat \<Rightarrow> probe_data \<Rightarrow> metric" where
  "status_metric timestamp result =
     \<lparr> MetricName = ''status'',
       Dimensions = [\<lparr>Name = name result, DimValue = ''HTTP Status''\<rparr>],
       Value = js_number (statusCode result),
       Unit = None,
       Timestamp = timestamp \<rparr>"

definition timing_metric :: "nat \<Rightarrow> probe_data \<Rightarrow> durations \<Rightarrow> string \<Rightarrow> metric" where
  "timing_metric timestamp result ds timing =
     \<lparr> MetricName = ''timing-'' @ timing,
       Dimensions = [\<lparr>Name = name result, DimValue = ''Timing: '' @ timing\<rparr>],
       Value = duration_get ds timing,
       Unit = Some ''Milliseconds'',
       Timestamp = timestamp \<rparr>"

text \<open>\<^verbatim>\<open>event.logTimings || ["readable", "total"]\<close>; an array, even an empty one, is truthy.\<close>

definition includedTimings :: "event \<Rightarrow> string list" where
  "includedTimings ev = (case logTimings ev of None \<Rightarrow> [''readable'', ''total''] | Some ts \<Rightarrow> ts)"

text \<open>
  The records of one result: the status record, then one record per included timing.
  Reading a key of \<^verbatim>\<open>result.durations\<close> throws when the result has no durations
  and there is a timing to read.
\<close>

definition result_metrics :: "nat \<Rightarrow> string list \<Rightarrow> probe_data \<Rightarrow> js_exception + metric list" where
  "result_metrics timestamp included result =
     (case durations result of
        None \<Rightarrow> if included = [] then Inr [status_metric timestamp result] else Inl TypeError
      | Some ds \<Rightarrow>
          Inr (status_metric timestamp result # map (timing_metric timestamp result ds) included))"

text \<open>\<^verbatim>\<open>results.map(...)\<close> stops at the first exception.\<close>

fun map_results :: "('a \<Rightarrow> js_exception + 'b) \<Rightarrow> 'a list \<Rightarrow> js_exception + 'b list" where
  "map_results f [] = Inr []"
| "map_results f (x # xs) =
     (case f x of
        Inl e \<Rightarrow> Inl e
      | Inr y \<Rightarrow> (case map_results f xs of Inl e \<Rightarrow> Inl e | Inr ys \<Rightarrow> Inr (y # ys)))"

text \<open>\<^verbatim>\<open>.reduce((acc, val) => [...acc, ...val], [])\<close>\<close>

definition flatten :: "'a list list \<Rightarrow> 'a list" where
  "flatten xss = foldl (\<lambda>acc val. acc @ val) [] xss"

definition metricData :: "nat \<Rightarrow> event \<Rightarrow> probe_data list \<Rightarrow> js_exception + metric list" where
  "metricData timestamp ev results =
     (case map_results (result_metrics timestamp (includedTimings ev)) results of
        Inl e \<Rightarrow> Inl e
      | Inr per_result \<Rightarrow> Inr (flatten per_result))"

section \<open>Batching (index.js, lines 30-45)\<close>

text \<open>
  The callback of \<^verbatim>\<open>data.reduce\<close>. \<^verbatim>\<open>acc[acc.length - 1]\<close> is \<^verbatim>\<open>undefined\<close> on the
  empty accumulator and the last group otherwise; pushing to that group changes the
  last element of the accumulator.
\<close>

definition batch_step :: "'a list list \<Rightarrow> 'a \<Rightarrow> 'a list list" where
  "batch_step acc m =
     (if acc = [] \<or> length (last acc) \<ge> 10
      then acc @ [[m]]
      else butlast acc @ [last acc @ [m]])"

definition batches :: "'a list \<Rightarrow> 'a list list" where
  "batches data = foldl batch_step [] data"

record put_request =
  Namespace :: string
  MetricData :: "metric list"

text \<open>
  One \<^verbatim>\<open>putMetricData\<close> call per group;
  \<^verbatim>\<open>event.namespace || "Watchtower"\<close> falls back on an absent or empty namespace.
\<close>

definition sendData :: "metric list \<Rightarrow> event \<Rightarrow> put_request list" where
  "sendData data ev =
     map (\<lambda>group. \<lparr> Namespace = tpl_str (js_or_str (namespace ev) (Some ''Watchtower'')),
                     MetricData = group \<rparr>)
         (batches data)"

section \<open>Incidents (index.js, lines 89-157 and 227-241)\<close>

record incident =
  incidentID :: string
  inc_name :: string
  inc_status :: string
  inc_message :: string

datatype http_method = GET | POST | PATCH

text \<open>
  A call of \<^verbatim>\<open>sendApiRequest\<close>: the endpoint, the method and the fields of the object
  that is serialised as the body.
\<close>

record api_request =
  endpoint :: string
  method_of :: http_method
  body :: "(string \<times> string) list"

definition getOpenIncidents :: "incident list \<Rightarrow> incident list" where
  "getOpenIncidents fetched = filter (\<lambda>i. inc_status i \<noteq> ''Resolved'') fetched"

definition incidentName :: "probe_data \<Rightarrow> string" where
  "incidentName result = tpl_str (name result) @ '' - Site Outage''"

definition updateComponent :: "probe_data \<Rightarrow> api_request" where
  "updateComponent result =
     \<lparr> endpoint = ''components/'' @ tpl_str (component result),
       method_of = PATCH,
       body = [(''status'', if statusCode result = Some 200 then ''Operational'' else ''Major Outage'')] \<rparr>"

definition createIncident :: "probe_data \<Rightarrow> incident list \<Rightarrow> api_request list" where
  "createIncident result incidents =
     (let existing = filter (\<lambda>i. inc_name i = incidentName result) incidents
      in if length existing = 0
         then [\<lparr> endpoint = ''incidents'',
                  method_of = POST,
                  body = [(''name'', incidentName result),
                          (''status'', ''Identified''),
                          (''message'', tpl_str (name result) @ '' is currently unavailable (HTTP ''
                                         @ tpl_num (statusCode result) @ '').'')] \<rparr>]
         else [])"

definition resolveIncident :: "probe_data \<Rightarrow> incident list \<Rightarrow> api_request list" where
  "resolveIncident result incidents =
     (let existing = filter (\<lambda>i. inc_name i = incidentName result) incidents
      in case existing of
           [e] \<Rightarrow> [\<lparr> endpoint = ''incidents/'' @ incidentID e,
                      method_of = PATCH,
                      body = [(''status'', ''Resolved''),
                              (''message'', tpl_str (name result) @ '' is currently operating normally.'')] \<rparr>]
         | _ \<Rightarrow> [])"

text \<open>
  The body of the \<^verbatim>\<open>then\<close> that follows \<^verbatim>\<open>updateComponent\<close> for one result: the
  incident requests issued for it.
\<close>

definition reconcile :: "probe_data \<Rightarrow> incident list \<Rightarrow> api_request list" where
  "reconcile result incidents =
     (if statusCode result \<noteq> Some 200
      then createIncident result incidents
      else resolveIncident result incidents)"

section \<open>Notions used in the statements\<close>

text \<open>The events whose handlers call \<^verbatim>\<open>resolve\<close>.\<close>

fun http_terminal :: "http_event \<Rightarrow> bool" where
  "http_terminal ReqClose = True"
| "http_terminal ReqError = True"
| "http_terminal _ = False"

fun socket_terminal :: "socket_event \<Rightarrow> bool" where
  "socket_terminal SockError = True"
| "socket_terminal SockTimeout = True"
| "socket_terminal SockClose = True"
| "socket_terminal _ = False"

text \<open>The status code of the latest response callback in a sequence of events, if any.\<close>

fun last_response :: "(http_event \<times> hrtime) list \<Rightarrow> int option" where
  "last_response [] = None"
| "last_response ((e, now) # es) =
     (case last_response es of
        Some c \<Rightarrow> Some c
      | None \<Rightarrow> (case e of Response c \<Rightarrow> Some c | _ \<Rightarrow> None))"

text \<open>A result that has its durations and a status code.\<close>

definition populated :: "probe_data \<Rightarrow> bool" where
  "populated d \<longleftrightarrow> durations d \<noteq> None \<and> statusCode d \<noteq> None"

text \<open>The number of invocations of \<^verbatim>\<open>resolve\<close> that a sequence of events causes.\<close>

definition http_terminals :: "(http_event \<times> hrtime) list \<Rightarrow> nat" where
  "http_terminals es = length (filter (\<lambda>p. http_terminal (fst p)) es)"

definition socket_terminals :: "(socket_event \<times> hrtime) list \<Rightarrow> nat" where
  "socket_terminals es = length (filter (\<lambda>p. socket_terminal (fst p)) es)"

text \<open>
  The invariant of the accumulator of \<^verbatim>\<open>sendData\<close>: no group is empty or longer
  than ten, and every group but the last is full.
\<close>

definition batch_inv :: "'a list list \<Rightarrow> bool" where
  "batch_inv acc \<longleftrightarrow>
     list_all (\<lambda>g. 1 \<le> length g \<and> length g \<le> 10) acc \<and>
     list_all (\<lambda>g. length g = 10) (butlast acc)"

text \<open>The records of one result, written without the exception.\<close>

definition expected_metrics :: "nat \<Rightarrow> string list \<Rightarrow> probe_data \<Rightarrow> metric list" where
  "expected_metrics timestamp included result =
     status_metric timestamp result #
     map (\<lambda>timing. \<lparr> MetricName = ''timing-'' @ timing,
                      Dimensions = [\<lparr>Name = name result, DimValue = ''Timing: '' @ timing\<rparr>],
                      Value = (case durations result of None \<Rightarrow> JsUndefined | Some ds \<Rightarrow> duration_get ds timing),
                      Unit = Some ''Milliseconds'',
                      Timestamp = timestamp \<rparr>) included"

text \<open>The open incidents that carry the name expected for a result.\<close>

definition matching :: "probe_data \<Rightarrow> incident list \<Rightarrow> incident list" where
  "matching result incidents =
     filter (\<lambda>i. inc_name i = tpl_str (name result) @ '' - Site Outage'') incidents"

text \<open>The greeting flag tells what has been written to the socket.\<close>

definition greeted :: "smtp_probe \<Rightarrow> bool" where
  "greeted s \<longleftrightarrow> socket_written s = (if smtpFlags_greeting s then [ehlo] else [])"

subsection \<open>Sample inputs\<close>

definition plain_timings :: timing_events where
  "plain_timings =
     [''start'' \<mapsto> (0, 0), ''lookup'' \<mapsto> (0, 1000000), ''connect'' \<mapsto> (0, 3000000),
      ''readable'' \<mapsto> (0, 10000000), ''close'' \<mapsto> (0, 12000000)]"

definition sample_target :: target where
  "sample_target =
     \<lparr> tname = None, url = Some ''https://example.com/'', hostname = None, port = None,
       ttype = None, tcomponent = None \<rparr>"

definition socket_target :: target where
  "socket_target =
     \<lparr> tname = Some ''mail'', url = None, hostname = Some ''mail.example.com'',
       port = Some 25, ttype = Some ''port'', tcomponent = None \<rparr>"

definition untyped_target :: target where
  "untyped_target = socket_target\<lparr>ttype := None\<rparr>"

definition sample_event :: event where
  "sample_event =
     \<lparr> targets = None, logTimings = None, namespace = None,
       timeout = None, api_host = None, api_key = None \<rparr>"

definition result_404 :: probe_data where
  "result_404 =
     \<lparr> name = Some ''site'', timings = Map.empty, component = None,
       statusCode = Some 404,
       durations = Some \<lparr> dur_lookup = 1, dur_connect = 2, dur_secureConnect = - 1,
                          dur_readable = - 1, dur_close = 3, dur_total = 12 \<rparr> \<rparr>"

definition result_200 :: probe_data where
  "result_200 = result_404\<lparr>statusCode := Some 200\<rparr>"

definition site_outage :: incident where
  "site_outage =
     \<lparr> incidentID = ''7'', inc_name = ''site - Site Outage'', inc_status = ''Identified'',
       inc_message = ''site is currently unavailable (HTTP 404).'' \<rparr>"

section \<open>Lemmas on the timing arithmetic\<close>

lemma hrToMs_int: "hrToMs (s, ns) = (s * 1000000000 + ns + 500000) div 1000000"
proof -
  have "(of_int s * 1000 + of_int ns / 1000000 + 1 / 2 :: rat)
        = of_int (s * 1000000000 + ns + 500000) / of_int 1000000"
    by (simp add: field_simps)
  then show ?thesis
    unfolding hrToMs_def math_round_def fst_conv snd_conv
    by (simp only: floor_divide_of_int_eq)
qed

lemma timingsDiff_nonzero: "timingsDiff tm key1 key2 \<noteq> 0"
  by (simp add: timingsDiff_def js_or_def split: option.splits)

lemma timingsDiff_absent:
  "tm key1 = None \<or> tm key2 = None \<Longrightarrow> timingsDiff tm key1 key2 = - 1"
  by (auto simp: timingsDiff_def split: option.splits)

lemma timingsDiff_present:
  "tm key1 = Some a \<Longrightarrow> tm key2 = Some b \<Longrightarrow>
   timingsDiff tm key1 key2 = (if hrDiff a b = 0 then - 1 else hrDiff a b)"
  by (simp add: timingsDiff_def js_or_def)

lemma hrToMs_mono:
  "s1 * 1000000000 + n1 \<le> s2 * 1000000000 + n2 \<Longrightarrow> hrToMs (s1, n1) \<le> hrToMs (s2, n2)"
  unfolding hrToMs_int by (intro zdiv_mono1) simp_all

lemma hrDiff_nonneg:
  "s1 * 1000000000 + n1 \<le> s2 * 1000000000 + n2 \<Longrightarrow> 0 \<le> hrDiff (s1, n1) (s2, n2)"
  using hrToMs_mono [of s1 n1 s2 n2] by (simp add: hrDiff_def)

lemma processTimings_readable:
  "dur_readable (processTimings tm) = timingsDiff tm ''secureConnect'' ''readable''"
  by (simp add: processTimings_def js_or_def timingsDiff_nonzero)

section \<open>Lemmas on batching\<close>

lemma batch_step_concat: "concat (batch_step acc m) = concat acc @ [m]"
proof (cases "acc = [] \<or> length (last acc) \<ge> 10")
  case True
  then show ?thesis by (simp add: batch_step_def)
next
  case False
  then have "acc = butlast acc @ [last acc]" by simp
  then have "concat acc = concat (butlast acc) @ last acc"
    by (metis concat.simps concat_append append_Nil2)
  with False show ?thesis by (simp add: batch_step_def)
qed

lemma batch_step_inv:
  assumes "batch_inv acc"
  shows "batch_inv (batch_step acc m)"
proof (cases "acc = []")
  case True
  then show ?thesis by (simp add: batch_step_def batch_inv_def)
next
  case nonempty: False
  then have split: "acc = butlast acc @ [last acc]" by simp
  from assms have all: "list_all (\<lambda>g. 1 \<le> length g \<and> length g \<le> 10) acc"
    and full: "list_all (\<lambda>g. length g = 10) (butlast acc)"
    by (simp_all add: batch_inv_def)
  from all nonempty have lastb: "1 \<le> length (last acc) \<and> length (last acc) \<le> 10"
    by (simp add: list_all_iff)
  from all have front: "list_all (\<lambda>g. 1 \<le> length g \<and> length g \<le> 10) (butlast acc)"
    by (auto simp: list_all_iff dest: in_set_butlastD)
  show ?thesis
  proof (cases "length (last acc) \<ge> 10")
    case True
    with lastb have "length (last acc) = 10" by simp
    with full have "list_all (\<lambda>g. length g = 10) (butlast acc @ [last acc])"
      by simp
    with nonempty have "list_all (\<lambda>g. length g = 10) acc"
      by simp
    with True all show ?thesis by (simp add: batch_step_def batch_inv_def)
  next
    case False
    with nonempty front full lastb show ?thesis
      by (simp add: batch_step_def batch_inv_def)
  qed
qed

lemma foldl_batch_step:
  "batch_inv acc \<Longrightarrow>
   batch_inv (foldl batch_step acc xs) \<and> concat (foldl batch_step acc xs) = concat acc @ xs"
proof (induction xs arbitrary: acc)
  case Nil
  then show ?case by simp
next
  case (Cons x xs)
  from Cons.prems have "batch_inv (batch_step acc x)" by (rule batch_step_inv)
  from Cons.IH [OF this] show ?case by (simp add: batch_step_concat)
qed

lemma length_concat_full:
  "list_all (\<lambda>g. length g = 10) xss \<Longrightarrow> length (concat xss) = 10 * length xss"
  by (induction xss) simp_all

lemma batch_inv_count:
  assumes "batch_inv acc"
  shows "length acc = (length (concat acc) + 9) div 10"
proof (cases "acc = []")
  case True
  then show ?thesis by simp
next
  case False
  then have split: "acc = butlast acc @ [last acc]" by simp
  from assms have all: "list_all (\<lambda>g. 1 \<le> length g \<and> length g \<le> 10) acc"
    and full: "list_all (\<lambda>g. length g = 10) (butlast acc)"
    by (simp_all add: batch_inv_def)
  from all False have lastb: "1 \<le> length (last acc) \<and> length (last acc) \<le> 10"
    by (simp add: list_all_iff)
  from split have "concat acc = concat (butlast acc) @ last acc"
    by (metis concat.simps concat_append append_Nil2)
  then have "length (concat acc) = 10 * length (butlast acc) + length (last acc)"
    using length_concat_full [OF full] by simp
  moreover from False have "length acc = length (butlast acc) + 1" by simp
  ultimately show ?thesis using lastb by presburger
qed

section \<open>Lemmas on the metric records\<close>

lemma foldl_append_concat: "foldl (\<lambda>acc val. acc @ val) acc xss = acc @ concat xss"
  by (induction xss arbitrary: acc) simp_all

lemma flatten_concat: "flatten xss = concat xss"
  by (simp add: flatten_def foldl_append_concat)

lemma result_metrics_defined:
  "durations result \<noteq> None \<Longrightarrow>
   result_metrics timestamp included result = Inr (expected_metrics timestamp included result)"
  by (auto simp: result_metrics_def expected_metrics_def timing_metric_def)

lemma map_results_defined:
  "list_all (\<lambda>r. durations r \<noteq> None) results \<Longrightarrow>
   map_results (result_metrics timestamp included) results
     = Inr (map (expected_metrics timestamp included) results)"
  by (induction results) (simp_all add: result_metrics_defined)

lemma metricData_defined:
  "list_all (\<lambda>r. durations r \<noteq> None) results \<Longrightarrow>
   metricData timestamp ev results
     = Inr (concat (map (expected_metrics timestamp (includedTimings ev)) results))"
  by (simp add: metricData_def map_results_defined flatten_concat)

lemma length_expected_all:
  "length (concat (map (expected_metrics timestamp included) results))
     = length results * (length included + 1)"
  by (induction results) (simp_all add: expected_metrics_def)

lemma status_of_expected:
  "map Value (filter (\<lambda>m. MetricName m = ''status'') (expected_metrics timestamp included result))
     = [js_number (statusCode result)]"
  by (simp add: expected_metrics_def status_metric_def filter_map o_def)

lemma status_of_expected_all:
  "map Value (filter (\<lambda>m. MetricName m = ''status'')
       (concat (map (expected_metrics timestamp included) results)))
     = map (\<lambda>r. js_number (statusCode r)) results"
  by (induction results) (simp_all add: status_of_expected del: filter.simps)

lemma timing_of_expected:
  "map MetricName (filter (\<lambda>m. MetricName m \<noteq> ''status'') (expected_metrics timestamp included result))
     = map (\<lambda>timing. ''timing-'' @ timing) included"
  by (simp add: expected_metrics_def status_metric_def filter_map o_def)

lemma timing_of_expected_all:
  "map MetricName (filter (\<lambda>m. MetricName m \<noteq> ''status'')
       (concat (map (expected_metrics timestamp included) results)))
     = concat (map (\<lambda>r. map (\<lambda>timing. ''timing-'' @ timing) included) results)"
  by (induction results) (simp_all add: timing_of_expected del: filter.simps)

section \<open>Lemmas on the probes\<close>

subsection \<open>resolve\<close>

lemma resolve_promise:
  "promise (resolve s) = (case promise s of Pending \<Rightarrow> Fulfilled | p \<Rightarrow> p)"
  by (simp add: resolve_def)

lemma resolve_pdata: "pdata (resolve s) = pdata s"
  by (simp add: resolve_def)

lemma resolve_count: "resolve_calls (resolve s) = Suc (resolve_calls s)"
  by (simp add: resolve_def)

lemma populated_finalize:
  "populated ((finalize (record_timing key now d))\<lparr>statusCode := Some c\<rparr>)"
  by (simp add: populated_def finalize_def record_timing_def)

lemma populated_record_timing: "populated d \<Longrightarrow> populated (record_timing key now d)"
  by (simp add: populated_def record_timing_def)

subsection \<open>HTTP\<close>

lemma http_on_promise:
  "promise (http_on e now s) =
     (if http_terminal e then (case promise s of Pending \<Rightarrow> Fulfilled | p \<Rightarrow> p) else promise s)"
  by (cases e) (simp_all add: resolve_def)

lemma http_on_count:
  "resolve_calls (http_on e now s) = resolve_calls s + (if http_terminal e then 1 else 0)"
  by (cases e) (simp_all add: resolve_def)

lemma http_on_populated: "populated (pdata s) \<Longrightarrow> populated (pdata (http_on e now s))"
  by (cases e)
     (auto simp: populated_def resolve_def finalize_def record_timing_def Let_def
           split: option.splits)

lemma http_run_append: "http_run (xs @ ys) s = http_run ys (http_run xs s)"
  by (induction xs arbitrary: s) auto

lemma http_run_fulfilled: "promise s = Fulfilled \<Longrightarrow> promise (http_run es s) = Fulfilled"
  by (induction es arbitrary: s) (auto simp: http_on_promise)

lemma http_run_populated: "populated (pdata s) \<Longrightarrow> populated (pdata (http_run es s))"
  by (induction es arbitrary: s) (auto simp: http_on_populated)

lemma http_run_count: "resolve_calls (http_run es s) = resolve_calls s + http_terminals es"
  by (induction es arbitrary: s) (auto simp: http_on_count http_terminals_def)

lemma http_on_quiet:
  "\<not> http_terminal e \<Longrightarrow>
   promise (http_on e now s) = promise s \<and>
   statusCode (pdata (http_on e now s))
     = (case e of Response c \<Rightarrow> Some c | _ \<Rightarrow> statusCode (pdata s))"
  by (cases e) (simp_all add: record_timing_def)

lemma http_run_quiet:
  "list_all (\<lambda>p. \<not> http_terminal (fst p)) es \<Longrightarrow>
   promise (http_run es s) = promise s \<and>
   statusCode (pdata (http_run es s))
     = (case last_response es of Some c \<Rightarrow> Some c | None \<Rightarrow> statusCode (pdata s))"
proof (induction es arbitrary: s)
  case Nil
  then show ?case by simp
next
  case (Cons p es)
  obtain e now where p: "p = (e, now)" by (cases p)
  from Cons.prems p have quiet: "\<not> http_terminal e"
    and rest: "list_all (\<lambda>p. \<not> http_terminal (fst p)) es" by simp_all
  from Cons.IH [OF rest, of "http_on e now s"] http_on_quiet [OF quiet, of now s] p
  show ?case by (simp split: option.splits http_event.splits)
qed

lemma http_terminal_status:
  "http_terminal e \<Longrightarrow>
   statusCode (pdata (http_on e now s))
     = (case statusCode (pdata s) of
          Some c \<Rightarrow> Some c
        | None \<Rightarrow> if e = ReqError then Some 0 else None)"
  by (cases e) (simp_all add: resolve_def finalize_def record_timing_def split: option.splits)

lemma http_terminal_durations:
  "http_terminal e \<Longrightarrow> durations (pdata (http_on e now s)) \<noteq> None"
  by (cases e) (simp_all add: resolve_def finalize_def record_timing_def)

lemma http_settles:
  assumes quiet: "list_all (\<lambda>p. \<not> http_terminal (fst p)) hs" and fin: "http_terminal he"
    and outcome: "he = ReqError \<or> last_response hs \<noteq> None"
  shows "promise (http_run hs (http_init tg t0)) = Pending"
    and "statusCode (pdata (http_run (hs @ [(he, now)]) (http_init tg t0)))
           = (case last_response hs of Some c \<Rightarrow> Some c | None \<Rightarrow> Some 0)"
    and "promise (http_run (hs @ (he, now) # rest) (http_init tg t0)) = Fulfilled"
    and "populated (pdata (http_run (hs @ (he, now) # rest) (http_init tg t0)))"
    and "resolve_calls (http_run (hs @ (he, now) # rest) (http_init tg t0))
           = Suc (http_terminals rest)"
proof -
  let ?s = "http_run hs (http_init tg t0)"
  let ?t = "http_on he now ?s"
  from http_run_quiet [OF quiet, of "http_init tg t0"]
  have pend: "promise ?s = Pending"
    and st: "statusCode (pdata ?s) = last_response hs"
    by (simp_all add: http_init_def init_data_def split: option.splits)
  from pend show "promise (http_run hs (http_init tg t0)) = Pending" .
  have run: "http_run (hs @ (he, now) # rest) (http_init tg t0) = http_run rest ?t" for rest
    by (simp add: http_run_append)
  from http_terminal_status [OF fin, of now ?s] st outcome
  have code: "statusCode (pdata ?t) = (case last_response hs of Some c \<Rightarrow> Some c | None \<Rightarrow> Some 0)"
    by (auto split: option.splits)
  with run [of "[]"]
  show "statusCode (pdata (http_run (hs @ [(he, now)]) (http_init tg t0)))
           = (case last_response hs of Some c \<Rightarrow> Some c | None \<Rightarrow> Some 0)"
    by simp
  from pend fin have "promise ?t = Fulfilled" by (simp add: http_on_promise)
  then show "promise (http_run (hs @ (he, now) # rest) (http_init tg t0)) = Fulfilled"
    by (simp add: run http_run_fulfilled)
  from code http_terminal_durations [OF fin, of now ?s] have "populated (pdata ?t)"
    by (simp add: populated_def split: option.splits)
  then show "populated (pdata (http_run (hs @ (he, now) # rest) (http_init tg t0)))"
    by (simp add: run http_run_populated)
  from quiet have "http_terminals hs = 0"
    by (induction hs) (simp_all add: http_terminals_def)
  with fin show "resolve_calls (http_run (hs @ (he, now) # rest) (http_init tg t0))
           = Suc (http_terminals rest)"
    by (simp add: http_run_count http_terminals_def http_init_def)
qed

subsection \<open>Port\<close>

lemma port_on_promise:
  "promise (port_on e now s) =
     (if socket_terminal e then (case promise s of Pending \<Rightarrow> Fulfilled | p \<Rightarrow> p) else promise s)"
  by (cases e) (simp_all add: resolve_def)

lemma port_on_count:
  "resolve_calls (port_on e now s) = resolve_calls s + (if socket_terminal e then 1 else 0)"
  by (cases e) (simp_all add: resolve_def)

lemma port_on_populated: "populated (pdata s) \<Longrightarrow> populated (pdata (port_on e now s))"
  by (cases e) (simp_all add: resolve_def populated_finalize populated_record_timing)

lemma port_on_destroyed: "socket_destroyed s \<Longrightarrow> socket_destroyed (port_on e now s)"
  by (cases e) (simp_all add: resolve_def)

lemma port_run_append: "port_run (xs @ ys) s = port_run ys (port_run xs s)"
  by (induction xs arbitrary: s) auto

lemma port_run_fulfilled: "promise s = Fulfilled \<Longrightarrow> promise (port_run es s) = Fulfilled"
  by (induction es arbitrary: s) (auto simp: port_on_promise)

lemma port_run_populated: "populated (pdata s) \<Longrightarrow> populated (pdata (port_run es s))"
  by (induction es arbitrary: s) (auto simp: port_on_populated)

lemma port_run_destroyed: "socket_destroyed s \<Longrightarrow> socket_destroyed (port_run es s)"
  by (induction es arbitrary: s) (auto simp: port_on_destroyed)

lemma port_run_count: "resolve_calls (port_run es s) = resolve_calls s + socket_terminals es"
  by (induction es arbitrary: s) (auto simp: port_on_count socket_terminals_def)

lemma port_run_quiet:
  "list_all (\<lambda>p. \<not> socket_terminal (fst p)) es \<Longrightarrow> promise (port_run es s) = promise s"
  by (induction es arbitrary: s) (auto simp: port_on_promise)

lemma port_terminal_populated:
  "socket_terminal e \<Longrightarrow> populated (pdata (port_on e now s))"
  by (cases e) (simp_all add: resolve_def populated_finalize)

lemma port_terminal_status:
  "socket_terminal e \<Longrightarrow>
   statusCode (pdata (port_on e now s)) = Some (if e = SockClose then 0 else - 1)"
  by (cases e) (simp_all add: resolve_def finalize_def record_timing_def)

lemma port_terminal_destroyed:
  "socket_terminal e \<Longrightarrow> socket_destroyed (port_on e now s)"
  by (cases e) (simp_all add: resolve_def)

lemma socket_quiet_terminals:
  "list_all (\<lambda>p. \<not> socket_terminal (fst p)) es \<Longrightarrow> socket_terminals es = 0"
  by (induction es) (simp_all add: socket_terminals_def)

lemma port_settles:
  assumes quiet: "list_all (\<lambda>p. \<not> socket_terminal (fst p)) ss" and fin: "socket_terminal se"
  shows "promise (port_run ss (port_init tg t0)) = Pending"
    and "statusCode (pdata (port_run (ss @ [(se, now)]) (port_init tg t0)))
           = Some (if se = SockClose then 0 else - 1)"
    and "promise (port_run (ss @ (se, now) # rest) (port_init tg t0)) = Fulfilled"
    and "populated (pdata (port_run (ss @ (se, now) # rest) (port_init tg t0)))"
    and "socket_destroyed (port_run (ss @ (se, now) # rest) (port_init tg t0))"
    and "resolve_calls (port_run (ss @ (se, now) # rest) (port_init tg t0))
           = Suc (socket_terminals rest)"
proof -
  let ?s = "port_run ss (port_init tg t0)"
  let ?t = "port_on se now ?s"
  from port_run_quiet [OF quiet, of "port_init tg t0"]
  show pend: "promise ?s = Pending" by (simp add: port_init_def)
  have run: "port_run (ss @ (se, now) # rest) (port_init tg t0) = port_run rest ?t" for rest
    by (simp add: port_run_append)
  from port_terminal_status [OF fin, of now ?s] run [of "[]"]
  show "statusCode (pdata (port_run (ss @ [(se, now)]) (port_init tg t0)))
           = Some (if se = SockClose then 0 else - 1)"
    by simp
  from pend fin have "promise ?t = Fulfilled" by (simp add: port_on_promise)
  then show "promise (port_run (ss @ (se, now) # rest) (port_init tg t0)) = Fulfilled"
    by (simp add: run port_run_fulfilled)
  from port_terminal_populated [OF fin, of now ?s]
  show "populated (pdata (port_run (ss @ (se, now) # rest) (port_init tg t0)))"
    by (simp add: run port_run_populated)
  from port_terminal_destroyed [OF fin, of now ?s]
  show "socket_destroyed (port_run (ss @ (se, now) # rest) (port_init tg t0))"
    by (simp add: run port_run_destroyed)
  from fin socket_quiet_terminals [OF quiet]
  show "resolve_calls (port_run (ss @ (se, now) # rest) (port_init tg t0))
           = Suc (socket_terminals rest)"
    by (simp add: port_run_count socket_terminals_def port_init_def)
qed

text \<open>
  Whatever came before, the close handler assigns status code \<open>0\<close> to the object
  \<^verbatim>\<open>data\<close>: a close that follows an error or a timeout replaces the \<open>-1\<close>.
\<close>

lemma port_close_status: "statusCode (pdata (port_on SockClose now s)) = Some 0"
  by (simp add: resolve_def finalize_def record_timing_def)

lemma port_close_after_terminal:
  assumes "list_all (\<lambda>p. \<not> socket_terminal (fst p)) ss" and "socket_terminal se"
  shows "promise_value (port_run (ss @ [(se, now), (SockClose, now')]) (port_init tg t0))
           = Some (pdata (port_run (ss @ [(se, now), (SockClose, now')]) (port_init tg t0)))"
    and "statusCode (pdata (port_run (ss @ [(se, now), (SockClose, now')]) (port_init tg t0)))
           = Some 0"
proof -
  from port_settles(3) [OF assms, of now "[(SockClose, now')]" tg t0]
  show "promise_value (port_run (ss @ [(se, now), (SockClose, now')]) (port_init tg t0))
           = Some (pdata (port_run (ss @ [(se, now), (SockClose, now')]) (port_init tg t0)))"
    by (simp add: promise_value_def)
  have "port_run (ss @ [(se, now), (SockClose, now')]) (port_init tg t0)
          = port_on SockClose now' (port_on se now (port_run ss (port_init tg t0)))"
    by (simp add: port_run_append)
  then show "statusCode (pdata (port_run (ss @ [(se, now), (SockClose, now')]) (port_init tg t0)))
           = Some 0"
    by (simp only: port_close_status)
qed

subsection \<open>SMTP\<close>

lemma smtp_on_promise:
  "promise (smtp_on e now s) =
     (if socket_terminal e then (case promise s of Pending \<Rightarrow> Fulfilled | p \<Rightarrow> p) else promise s)"
  by (cases e) (simp_all add: resolve_def)

lemma smtp_on_count:
  "resolve_calls (smtp_on e now s) = resolve_calls s + (if socket_terminal e then 1 else 0)"
  by (cases e) (simp_all add: resolve_def)

lemma smtp_on_populated: "populated (pdata s) \<Longrightarrow> populated (pdata (smtp_on e now s))"
  by (cases e) (simp_all add: resolve_def populated_finalize populated_record_timing)

lemma smtp_on_destroyed: "socket_destroyed s \<Longrightarrow> socket_destroyed (smtp_on e now s)"
  by (cases e) (simp_all add: resolve_def)

lemma smtp_run_append: "smtp_run (xs @ ys) s = smtp_run ys (smtp_run xs s)"
  by (induction xs arbitrary: s) auto

lemma smtp_run_fulfilled: "promise s = Fulfilled \<Longrightarrow> promise (smtp_run es s) = Fulfilled"
  by (induction es arbitrary: s) (auto simp: smtp_on_promise)

lemma smtp_run_populated: "populated (pdata s) \<Longrightarrow> populated (pdata (smtp_run es s))"
  by (induction es arbitrary: s) (auto simp: smtp_on_populated)

lemma smtp_run_destroyed: "socket_destroyed s \<Longrightarrow> socket_destroyed (smtp_run es s)"
  by (induction es arbitrary: s) (auto simp: smtp_on_destroyed)

lemma smtp_run_count: "resolve_calls (smtp_run es s) = resolve_calls s + socket_terminals es"
  by (induction es arbitrary: s) (auto simp: smtp_on_count socket_terminals_def)

lemma smtp_run_quiet:
  "list_all (\<lambda>p. \<not> socket_terminal (fst p)) es \<Longrightarrow> promise (smtp_run es s) = promise s"
  by (induction es arbitrary: s) (auto simp: smtp_on_promise)

lemma smtp_terminal_populated:
  "socket_terminal e \<Longrightarrow> populated (pdata (smtp_on e now s))"
  by (cases e) (simp_all add: resolve_def populated_finalize)

lemma smtp_terminal_status:
  "socket_terminal e \<Longrightarrow>
   statusCode (pdata (smtp_on e now s)) = Some (if e = SockClose then 0 else - 1)"
  by (cases e) (simp_all add: resolve_def finalize_def record_timing_def)

lemma smtp_terminal_destroyed:
  "socket_terminal e \<Longrightarrow> socket_destroyed (smtp_on e now s)"
  by (cases e) (simp_all add: resolve_def)

lemma smtp_settles:
  assumes quiet: "list_all (\<lambda>p. \<not> socket_terminal (fst p)) ss" and fin: "socket_terminal se"
  shows "promise (smtp_run ss (smtp_init tg t0)) = Pending"
    and "statusCode (pdata (smtp_run (ss @ [(se, now)]) (smtp_init tg t0)))
           = Some (if se = SockClose then 0 else - 1)"
    and "promise (smtp_run (ss @ (se, now) # rest) (smtp_init tg t0)) = Fulfilled"
    and "populated (pdata (smtp_run (ss @ (se, now) # rest) (smtp_init tg t0)))"
    and "socket_destroyed (smtp_run (ss @ (se, now) # rest) (smtp_init tg t0))"
    and "resolve_calls (smtp_run (ss @ (se, now) # rest) (smtp_init tg t0))
           = Suc (socket_terminals rest)"
proof -
  let ?s = "smtp_run ss (smtp_init tg t0)"
  let ?t = "smtp_on se now ?s"
  from smtp_run_quiet [OF quiet, of "smtp_init tg t0"]
  show pend: "promise ?s = Pending" by (simp add: smtp_init_def)
  have run: "smtp_run (ss @ (se, now) # rest) (smtp_init tg t0) = smtp_run rest ?t" for rest
    by (simp add: smtp_run_append)
  from smtp_terminal_status [OF fin, of now ?s] run [of "[]"]
  show "statusCode (pdata (smtp_run (ss @ [(se, now)]) (smtp_init tg t0)))
           = Some (if se = SockClose then 0 else - 1)"
    by simp
  from pend fin have "promise ?t = Fulfilled" by (simp add: smtp_on_promise)
  then show "promise (smtp_run (ss @ (se, now) # rest) (smtp_init tg t0)) = Fulfilled"
    by (simp add: run smtp_run_fulfilled)
  from smtp_terminal_populated [OF fin, of now ?s]
  show "populated (pdata (smtp_run (ss @ (se, now) # rest) (smtp_init tg t0)))"
    by (simp add: run smtp_run_populated)
  from smtp_terminal_destroyed [OF fin, of now ?s]
  show "socket_destroyed (smtp_run (ss @ (se, now) # rest) (smtp_init tg t0))"
    by (simp add: run smtp_run_destroyed)
  from fin socket_quiet_terminals [OF quiet]
  show "resolve_calls (smtp_run (ss @ (se, now) # rest) (smtp_init tg t0))
           = Suc (socket_terminals rest)"
    by (simp add: smtp_run_count socket_terminals_def smtp_init_def)
qed

subsection \<open>EHLO\<close>

lemma smtp_on_greeted: "greeted s \<Longrightarrow> greeted (smtp_on e now s)"
  by (cases e) (simp_all add: greeted_def resolve_def)

lemma smtp_run_greeted: "greeted s \<Longrightarrow> greeted (smtp_run es s)"
  by (induction es arbitrary: s) (auto simp: smtp_on_greeted)

lemma smtp_init_greeted: "greeted (smtp_init tg t0)"
  by (simp add: greeted_def smtp_init_def)

lemma smtp_on_written:
  "socket_written (smtp_on e now s) =
     (case e of
        SockData chunk \<Rightarrow>
          if prefix ''220'' chunk \<and> \<not> smtpFlags_greeting s
          then socket_written s @ [ehlo] else socket_written s
      | _ \<Rightarrow> socket_written s)"
  by (cases e) (simp_all add: resolve_def)

lemma smtp_on_flag: "smtpFlags_greeting s \<Longrightarrow> smtpFlags_greeting (smtp_on e now s)"
  by (cases e) (simp_all add: resolve_def)

lemma smtp_run_flag: "smtpFlags_greeting s \<Longrightarrow> smtpFlags_greeting (smtp_run es s)"
  by (induction es arbitrary: s) (auto simp: smtp_on_flag)

lemma smtp_on_written_flag:
  "smtpFlags_greeting s \<Longrightarrow> socket_written (smtp_on e now s) = socket_written s"
  by (cases e) (simp_all add: resolve_def)

lemma smtp_run_written_flag:
  "smtpFlags_greeting s \<Longrightarrow> socket_written (smtp_run es s) = socket_written s"
  by (induction es arbitrary: s) (auto simp: smtp_on_flag smtp_on_written_flag)

lemma not_220_and_250: "prefix ''250'' chunk \<Longrightarrow> \<not> prefix ''220'' chunk"
  by (auto simp: prefix_def)

section \<open>The claims\<close>

subsection \<open>Durations\<close>

text \<open>
  C1. For an interval whose two timestamps are recorded the duration is meant to be
  the difference of the two instants in rounded milliseconds, a non-negative integer
  when the second instant is not before the first, and \<open>-1\<close> only when an endpoint is
  absent. The source writes \<^verbatim>\<open>(... && hrDiff(...)) || -1\<close>, and a difference of \<open>0\<close>
  is falsy: with \<^verbatim>\<open>start = [5, 0]\<close> and \<^verbatim>\<open>lookup = [5, 100000]\<close>, both recorded and
  0.1 ms apart, the difference is \<open>0\<close> and the computed duration is \<open>-1\<close>.
  (Lemmas \<open>timingsDiff_absent\<close> and \<open>timingsDiff_present\<close> give the function on
  every input.)
\<close>

theorem timingsDiff_zero_duration:
  "hrDiff (5, 0) (5, 100000) = 0 \<and>
   timingsDiff [''start'' \<mapsto> (5, 0), ''lookup'' \<mapsto> (5, 100000)] ''start'' ''lookup'' = - 1"
  by (simp add: timingsDiff_def js_or_def hrDiff_def hrToMs_int)

text \<open>
  C2. The \<^verbatim>\<open>readable\<close> duration is meant to fall back to \<^verbatim>\<open>connect\<close> \<open>\<rightarrow>\<close> \<^verbatim>\<open>readable\<close>
  when there is no \<^verbatim>\<open>secureConnect\<close> timestamp. \<^verbatim>\<open>timingsDiff\<close> never returns a falsy
  value (lemma \<open>timingsDiff_nonzero\<close>), so the right operand of the \<^verbatim>\<open>||\<close> in line 19
  is never evaluated (lemma \<open>processTimings_readable\<close>): for the timestamps of a
  plaintext probe, where connect and readable are 7 ms apart, the \<^verbatim>\<open>readable\<close>
  duration is \<open>-1\<close>.
\<close>

theorem readable_fallback_not_taken:
  "plain_timings ''secureConnect'' = None \<and>
   timingsDiff plain_timings ''connect'' ''readable'' = 7 \<and>
   dur_readable (processTimings plain_timings) = - 1"
  by (simp add: plain_timings_def processTimings_def timingsDiff_def js_or_def hrDiff_def hrToMs_int)

subsection \<open>Terminal events of the probes\<close>

text \<open>
  C3. A port or smtp probe is meant to resolve with status code \<open>-1\<close> when its socket
  ends with an error or a timeout, and with \<open>0\<close> on a clean close. The error and
  timeout handlers assign \<open>-1\<close>, destroy the socket and resolve with the object
  \<^verbatim>\<open>data\<close>; the socket then emits \<^verbatim>\<open>close\<close>, and the close handler assigns \<open>0\<close> to
  that same object. For a port probe with the events error, close and for an smtp
  probe with the events timeout, close, the socket is destroyed and the status code
  is \<open>-1\<close> after the first handler, and the result the promise holds carries status
  code \<open>0\<close> after the second. (Lemma \<open>port_close_after_terminal\<close> shows it after any
  earlier events.)
\<close>

theorem close_handler_overwrites_status:
  "statusCode (pdata (port_run [(SockError, (0, 2000000))] (port_init socket_target (0, 0))))
     = Some (- 1) \<and>
   socket_destroyed (port_run [(SockError, (0, 2000000))] (port_init socket_target (0, 0))) \<and>
   map_option statusCode
     (promise_value (port_run [(SockError, (0, 2000000)), (SockClose, (0, 3000000))]
                              (port_init socket_target (0, 0))))
     = Some (Some 0) \<and>
   statusCode (pdata (smtp_run [(SockTimeout, (5, 0))] (smtp_init socket_target (0, 0))))
     = Some (- 1) \<and>
   socket_destroyed (smtp_run [(SockTimeout, (5, 0))] (smtp_init socket_target (0, 0))) \<and>
   map_option statusCode
     (promise_value (smtp_run [(SockTimeout, (5, 0)), (SockClose, (5, 1000000))]
                              (smtp_init socket_target (0, 0))))
     = Some (Some 0)"
  by (simp add: port_init_def smtp_init_def promise_value_def resolve_def finalize_def
        record_timing_def)

text \<open>
  C4. The claim that the promise of every probe resolves exactly once and is never
  rejected fails in two ways. No handler guards \<^verbatim>\<open>resolve\<close>: an HTTP error followed
  by the close of the request calls it twice. And a target without \<^verbatim>\<open>url\<close> that
  goes to the HTTP handler (its \<^verbatim>\<open>type\<close> is absent) makes \<^verbatim>\<open>createRequest\<close> throw,
  which rejects the promise.
\<close>

theorem probe_resolve_twice_or_rejected:
  "resolve_calls (http_run [(ReqError, (5, 0)), (ReqClose, (5, 1000000))]
                           (http_init sample_target (0, 0))) = 2 \<and>
   select_handler (ttype untyped_target) = HttpCheck \<and>
   executor_promise (handlers_http untyped_target (0, 0) None) = Rejected TypeError"
  by (simp add: http_init_def resolve_def select_handler_def untyped_target_def
        socket_target_def executor_promise_def handlers_http_def createRequest_def)

text \<open>
  C4, as amended. Take a probe whose request or socket is set up without an
  exception (for the HTTP check the target has a \<^verbatim>\<open>url\<close>), and an outcome: for the
  HTTP check a response followed by the close of the request, or an error (an abort
  by the timer arrives as an error); for the port and smtp checks a close, an error
  or a timeout. The promise is pending until the first terminal event; that event
  fulfils it with the object \<^verbatim>\<open>data\<close>, and whatever follows leaves it fulfilled, so
  it is never rejected. From then on the object has its durations and a status
  code; after an HTTP error with no response before it the status code is \<open>0\<close>.
  \<^verbatim>\<open>resolve\<close> is called once by every terminal event, the first one and each later
  one; the later calls do not change the promise.
\<close>

theorem probe_settles_once:
  assumes "url tg = Some address"
    and "list_all (\<lambda>p. \<not> http_terminal (fst p)) hs" and "http_terminal he"
    and "he = ReqError \<or> last_response hs \<noteq> None"
    and "list_all (\<lambda>p. \<not> socket_terminal (fst p)) ss" and "socket_terminal se"
  shows "handlers_http tg t0 None = Inr (http_init tg t0) \<and>
         promise (http_run hs (http_init tg t0)) = Pending \<and>
         statusCode (pdata (http_run (hs @ [(he, now)]) (http_init tg t0)))
           = (case last_response hs of Some c \<Rightarrow> Some c | None \<Rightarrow> Some 0) \<and>
         (\<forall>rest. promise (http_run (hs @ (he, now) # rest) (http_init tg t0)) = Fulfilled \<and>
                 populated (pdata (http_run (hs @ (he, now) # rest) (http_init tg t0))) \<and>
                 resolve_calls (http_run (hs @ (he, now) # rest) (http_init tg t0))
                   = Suc (http_terminals rest)) \<and>
         handlers_port sg t0 None = Inr (port_init sg t0) \<and>
         promise (port_run ss (port_init sg t0)) = Pending \<and>
         (\<forall>rest. promise (port_run (ss @ (se, now) # rest) (port_init sg t0)) = Fulfilled \<and>
                 populated (pdata (port_run (ss @ (se, now) # rest) (port_init sg t0))) \<and>
                 resolve_calls (port_run (ss @ (se, now) # rest) (port_init sg t0))
                   = Suc (socket_terminals rest)) \<and>
         handlers_smtp sg t0 None = Inr (smtp_init sg t0) \<and>
         promise (smtp_run ss (smtp_init sg t0)) = Pending \<and>
         (\<forall>rest. promise (smtp_run (ss @ (se, now) # rest) (smtp_init sg t0)) = Fulfilled \<and>
                 populated (pdata (smtp_run (ss @ (se, now) # rest) (smtp_init sg t0))) \<and>
                 resolve_calls (smtp_run (ss @ (se, now) # rest) (smtp_init sg t0))
                   = Suc (socket_terminals rest))"
proof -
  note http = assms(2,3,4) and sock = assms(5,6)
  from assms(1) have "handlers_http tg t0 None = Inr (http_init tg t0)"
    by (simp add: handlers_http_def createRequest_def)
  moreover have "handlers_port sg t0 None = Inr (port_init sg t0)"
    and "handlers_smtp sg t0 None = Inr (smtp_init sg t0)"
    by (simp_all add: handlers_port_def handlers_smtp_def)
  ultimately show ?thesis
    by (simp add: http_settles [OF http] port_settles [OF sock] smtp_settles [OF sock])
qed

theorem probe_settles_once_witness:
  "handlers_http sample_target (0, 0) None = Inr (http_init sample_target (0, 0)) \<and>
   statusCode (pdata (http_run ([(SocketLookup, (0, 1000000)), (TimerFired, (5, 0))]
                                  @ [(ReqError, (5, 1000000))])
                               (http_init sample_target (0, 0)))) = Some 0 \<and>
   (\<forall>rest. promise (http_run ([(SocketLookup, (0, 1000000)), (TimerFired, (5, 0))]
                                 @ (ReqError, (5, 1000000)) # rest)
                               (http_init sample_target (0, 0))) = Fulfilled \<and>
           populated (pdata (http_run ([(SocketLookup, (0, 1000000)), (TimerFired, (5, 0))]
                                         @ (ReqError, (5, 1000000)) # rest)
                                       (http_init sample_target (0, 0)))) \<and>
           resolve_calls (http_run ([(SocketLookup, (0, 1000000)), (TimerFired, (5, 0))]
                                      @ (ReqError, (5, 1000000)) # rest)
                                    (http_init sample_target (0, 0)))
             = Suc (http_terminals rest)) \<and>
   (\<forall>rest. promise (port_run ([(SockLookup, (0, 1000000))] @ (SockTimeout, (5, 1000000)) # rest)
                               (port_init socket_target (0, 0))) = Fulfilled \<and>
           populated (pdata (port_run ([(SockLookup, (0, 1000000))]
                                         @ (SockTimeout, (5, 1000000)) # rest)
                                       (port_init socket_target (0, 0)))))"
proof -
  have "url sample_target = Some ''https://example.com/''"
    and "list_all (\<lambda>p. \<not> http_terminal (fst p))
          [(SocketLookup, (0, 1000000) :: hrtime), (TimerFired, (5, 0))]"
    and "http_terminal ReqError"
    and "ReqError = ReqError \<or>
         last_response [(SocketLookup, (0, 1000000)), (TimerFired, (5, 0))] \<noteq> None"
    and "list_all (\<lambda>p. \<not> socket_terminal (fst p)) [(SockLookup, (0, 1000000) :: hrtime)]"
    and "socket_terminal SockTimeout"
    by (simp_all add: sample_target_def)
  from probe_settles_once [OF this]
  show ?thesis by simp
qed

subsection \<open>Metrics\<close>

text \<open>
  C5. The groups that \<^verbatim>\<open>sendData\<close> submits, one per \<^verbatim>\<open>putMetricData\<close> call, are
  consecutive pieces of the list of records, in order: their concatenation is the
  list; no group has more than ten records; and there are \<open>\<lceil>n / 10\<rceil>\<close> groups for
  \<open>n\<close> records.
\<close>

theorem batches_partition:
  "concat (map MetricData (sendData data ev)) = data \<and>
   list_all (\<lambda>rq. length (MetricData rq) \<le> 10) (sendData data ev) \<and>
   length (sendData data ev) = (length data + 9) div 10"
proof -
  have inv0: "batch_inv ([] :: metric list list)" by (simp add: batch_inv_def)
  from foldl_batch_step [OF inv0, of data]
  have inv: "batch_inv (batches data)" and cat: "concat (batches data) = data"
    by (simp_all add: batches_def)
  from inv have "list_all (\<lambda>g. length g \<le> 10) (batches data)"
    by (simp add: batch_inv_def list_all_iff)
  moreover from batch_inv_count [OF inv] cat
  have "length (batches data) = (length data + 9) div 10" by simp
  moreover have "map MetricData (sendData data ev) = batches data"
    by (simp add: sendData_def o_def)
  ultimately show ?thesis using cat by (simp add: list_all_iff sendData_def)
qed

theorem batches_partition_witness:
  "concat (map MetricData (sendData (replicate 12 (status_metric 0 result_404)) sample_event))
     = replicate 12 (status_metric 0 result_404) \<and>
   list_all (\<lambda>rq. length (MetricData rq) \<le> 10)
     (sendData (replicate 12 (status_metric 0 result_404)) sample_event) \<and>
   length (sendData (replicate 12 (status_metric 0 result_404)) sample_event) = 2"
  using batches_partition [of "replicate 12 (status_metric 0 result_404)" sample_event]
  by simp

text \<open>
  C6. For \<open>N\<close> results, each with its durations, and an event whose \<^verbatim>\<open>logTimings\<close>
  is a list of \<open>K\<close> keys, the handler builds \<open>N \<times> (K + 1)\<close> records: per result one
  record named \<^verbatim>\<open>status\<close> whose value is the status code, and one record
  \<^verbatim>\<open>timing-<key>\<close> per key of \<^verbatim>\<open>logTimings\<close>, in order. For an event without
  \<^verbatim>\<open>logTimings\<close> the keys are \<^verbatim>\<open>readable\<close> and \<^verbatim>\<open>total\<close>, which gives \<open>N \<times> 3\<close>
  records.
\<close>

theorem metric_record_count:
  assumes "list_all (\<lambda>r. durations r \<noteq> None) results"
  shows "(\<exists>ms. metricData timestamp (ev\<lparr>logTimings := Some ts\<rparr>) results = Inr ms \<and>
              length ms = length results * (length ts + 1) \<and>
              map Value (filter (\<lambda>m. MetricName m = ''status'') ms)
                = map (\<lambda>r. js_number (statusCode r)) results \<and>
              map MetricName (filter (\<lambda>m. MetricName m \<noteq> ''status'') ms)
                = concat (map (\<lambda>r. map (\<lambda>timing. ''timing-'' @ timing) ts) results)) \<and>
         (\<exists>ms. metricData timestamp (ev\<lparr>logTimings := None\<rparr>) results = Inr ms \<and>
              length ms = length results * 3 \<and>
              map Value (filter (\<lambda>m. MetricName m = ''status'') ms)
                = map (\<lambda>r. js_number (statusCode r)) results \<and>
              map MetricName (filter (\<lambda>m. MetricName m \<noteq> ''status'') ms)
                = concat (map (\<lambda>r. [''timing-readable'', ''timing-total'']) results))"
proof -
  have general: "\<exists>ms. metricData timestamp e results = Inr ms \<and>
      length ms = length results * (length (includedTimings e) + 1) \<and>
      map Value (filter (\<lambda>m. MetricName m = ''status'') ms)
        = map (\<lambda>r. js_number (statusCode r)) results \<and>
      map MetricName (filter (\<lambda>m. MetricName m \<noteq> ''status'') ms)
        = concat (map (\<lambda>r. map (\<lambda>timing. ''timing-'' @ timing) (includedTimings e)) results)"
    for e
  proof -
    let ?ms = "concat (map (expected_metrics timestamp (includedTimings e)) results)"
    have "metricData timestamp e results = Inr ?ms"
      using assms by (rule metricData_defined)
    moreover have "length ?ms = length results * (length (includedTimings e) + 1)"
      by (rule length_expected_all)
    moreover have "map Value (filter (\<lambda>m. MetricName m = ''status'') ?ms)
        = map (\<lambda>r. js_number (statusCode r)) results"
      by (rule status_of_expected_all)
    moreover have "map MetricName (filter (\<lambda>m. MetricName m \<noteq> ''status'') ?ms)
        = concat (map (\<lambda>r. map (\<lambda>timing. ''timing-'' @ timing) (includedTimings e)) results)"
      by (rule timing_of_expected_all)
    ultimately show ?thesis by blast
  qed
  have given: "includedTimings (ev\<lparr>logTimings := Some ts\<rparr>) = ts"
    and default: "includedTimings (ev\<lparr>logTimings := None\<rparr>) = [''readable'', ''total'']"
    by (simp_all add: includedTimings_def)
  have three: "length [''readable'', ''total''] + 1 = (3::nat)"
    and names: "map (\<lambda>timing. ''timing-'' @ timing) [''readable'', ''total'']
                  = [''timing-readable'', ''timing-total'']"
    by simp_all
  note general [of "ev\<lparr>logTimings := Some ts\<rparr>", unfolded given]
  moreover note general [of "ev\<lparr>logTimings := None\<rparr>", unfolded default three names]
  ultimately show ?thesis by (rule conjI)
qed

theorem metric_record_count_witness:
  "(\<exists>ms. metricData 0 (sample_event\<lparr>logTimings := Some [''lookup'', ''connect'', ''total'']\<rparr>)
            [result_404, result_200] = Inr ms \<and>
        length ms = 8 \<and>
        map Value (filter (\<lambda>m. MetricName m = ''status'') ms) = [JsNumber 404, JsNumber 200]) \<and>
   (\<exists>ms. metricData 0 sample_event [result_404, result_200] = Inr ms \<and> length ms = 6)"
proof -
  have "list_all (\<lambda>r. durations r \<noteq> None) [result_404, result_200]"
    by (simp add: result_404_def result_200_def)
  note count = metric_record_count [OF this, where timestamp = 0 and ev = sample_event
      and ts = "[''lookup'', ''connect'', ''total'']"]
  from count obtain ms where run:
      "metricData 0 (sample_event\<lparr>logTimings := Some [''lookup'', ''connect'', ''total'']\<rparr>)
         [result_404, result_200] = Inr ms"
    and len: "length ms = length [result_404, result_200] * (length [''lookup'', ''connect'', ''total''] + 1)"
    and st: "map Value (filter (\<lambda>m. MetricName m = ''status'') ms)
               = map (\<lambda>r. js_number (statusCode r)) [result_404, result_200]"
    by blast
  from count obtain ms' where run':
      "metricData 0 (sample_event\<lparr>logTimings := None\<rparr>) [result_404, result_200] = Inr ms'"
    and len': "length ms' = length [result_404, result_200] * 3"
    by blast
  have same: "sample_event\<lparr>logTimings := None\<rparr> = sample_event"
    by (simp add: sample_event_def)
  from len have "length ms = 8" by simp
  moreover from st have "map Value (filter (\<lambda>m. MetricName m = ''status'') ms)
      = [JsNumber 404, JsNumber 200]"
    by (simp add: result_404_def result_200_def js_number_def)
  moreover from len' have "length ms' = 6" by simp
  ultimately show ?thesis using run run' same by auto
qed

subsection \<open>The handler\<close>

text \<open>
  C7. When the event has no \<^verbatim>\<open>targets\<close>, the handler calls the callback with the
  error \<^verbatim>\<open>"No targets given"\<close> and starts no probe (it then fails with a
  \<^verbatim>\<open>TypeError\<close> at \<^verbatim>\<open>targets.map\<close>).
\<close>

theorem handler_without_targets:
  "targets ev = None \<Longrightarrow>
   callback_errors (handler_sync ev clock) = [''No targets given''] \<and>
   probes (handler_sync ev clock) = [] \<and>
   thrown (handler_sync ev clock) = Some TypeError"
  by (simp add: handler_sync_def)

theorem handler_without_targets_witness:
  "callback_errors (handler_sync sample_event (\<lambda>i. (0, 0))) = [''No targets given''] \<and>
   probes (handler_sync sample_event (\<lambda>i. (0, 0))) = []"
proof -
  have "targets sample_event = None" by (simp add: sample_event_def)
  from handler_without_targets [OF this, of "\<lambda>i. (0, 0)"] show ?thesis by simp
qed

text \<open>
  C10. A target whose \<^verbatim>\<open>type\<close> is neither \<^verbatim>\<open>"port"\<close> nor \<^verbatim>\<open>"smtp"\<close>, or is absent,
  is checked with the HTTP handler; the result of a target without a \<^verbatim>\<open>name\<close> is
  named by the target's \<^verbatim>\<open>url\<close>.
\<close>

theorem default_check_and_name:
  "(ttype tg \<noteq> Some ''port'' \<and> ttype tg \<noteq> Some ''smtp'' \<longrightarrow> l_check (launch tg now) = HttpCheck) \<and>
   (tname tg = None \<longrightarrow> name (l_data (launch tg now)) = url tg)"
  by (simp add: launch_def select_handler_def init_data_def js_or_str_def)

theorem default_check_and_name_witness:
  "l_check (launch sample_target (0, 0)) = HttpCheck \<and>
   name (l_data (launch sample_target (0, 0))) = Some ''https://example.com/''"
proof -
  have "ttype sample_target \<noteq> Some ''port'' \<and> ttype sample_target \<noteq> Some ''smtp''"
    and "tname sample_target = None"
    and "url sample_target = Some ''https://example.com/''"
    by (simp_all add: sample_target_def)
  with default_check_and_name [of sample_target "(0, 0)"] show ?thesis by simp
qed

subsection \<open>Incidents\<close>

text \<open>
  C8. The incidents considered for a result are the open incidents named
  \<^verbatim>\<open>"<name> - Site Outage"\<close>. For a result whose status code is not \<open>200\<close>: when none
  matches, one request creates an incident with status \<^verbatim>\<open>Identified\<close>; when some
  match, no request is made. For a result with status code \<open>200\<close>: when exactly one
  matches, one request sets it to \<^verbatim>\<open>Resolved\<close>; otherwise no request is made.
\<close>

theorem reconcile_actions:
  "(statusCode result \<noteq> Some 200 \<and> matching result incidents = [] \<longrightarrow>
      (\<exists>rq. reconcile result incidents = [rq] \<and> endpoint rq = ''incidents'' \<and> method_of rq = POST \<and>
            map_of (body rq) ''name'' = Some (tpl_str (name result) @ '' - Site Outage'') \<and>
            map_of (body rq) ''status'' = Some ''Identified'')) \<and>
   (statusCode result \<noteq> Some 200 \<and> matching result incidents \<noteq> [] \<longrightarrow>
      reconcile result incidents = []) \<and>
   (statusCode result = Some 200 \<and> length (matching result incidents) = 1 \<longrightarrow>
      (\<exists>rq. reconcile result incidents = [rq] \<and> method_of rq = PATCH \<and>
            endpoint rq = ''incidents/'' @ incidentID (hd (matching result incidents)) \<and>
            map_of (body rq) ''status'' = Some ''Resolved'')) \<and>
   (statusCode result = Some 200 \<and> length (matching result incidents) \<noteq> 1 \<longrightarrow>
      reconcile result incidents = [])"
  by (auto simp: reconcile_def createIncident_def resolveIncident_def matching_def incidentName_def
           Let_def split: list.splits)

theorem reconcile_actions_witness:
  "(\<exists>rq. reconcile result_404 [] = [rq] \<and> method_of rq = POST \<and>
         map_of (body rq) ''status'' = Some ''Identified'') \<and>
   reconcile result_404 [site_outage] = [] \<and>
   (\<exists>rq. reconcile result_200 [site_outage] = [rq] \<and> method_of rq = PATCH \<and>
         endpoint rq = ''incidents/7'' \<and> map_of (body rq) ''status'' = Some ''Resolved'') \<and>
   reconcile result_200 [site_outage, site_outage] = []"
proof -
  have down: "statusCode result_404 \<noteq> Some 200" and up: "statusCode result_200 = Some 200"
    by (simp_all add: result_404_def result_200_def)
  have m0: "matching result_404 [] = []"
    and m1: "matching result_404 [site_outage] \<noteq> []"
    and m2: "matching result_200 [site_outage] = [site_outage]"
    and m3: "length (matching result_200 [site_outage, site_outage]) \<noteq> 1"
    by (simp_all add: matching_def result_404_def result_200_def site_outage_def tpl_str_def)
  from reconcile_actions [of result_404 "[]"] down m0
  have "\<exists>rq. reconcile result_404 [] = [rq] \<and> method_of rq = POST \<and>
         map_of (body rq) ''status'' = Some ''Identified''"
    by auto
  moreover from reconcile_actions [of result_404 "[site_outage]"] down m1
  have "reconcile result_404 [site_outage] = []" by blast
  moreover from reconcile_actions [of result_200 "[site_outage]"] up m2
  have "\<exists>rq. reconcile result_200 [site_outage] = [rq] \<and> method_of rq = PATCH \<and>
         endpoint rq = ''incidents/7'' \<and> map_of (body rq) ''status'' = Some ''Resolved''"
    by (simp add: site_outage_def)
  moreover from reconcile_actions [of result_200 "[site_outage, site_outage]"] up m3
  have "reconcile result_200 [site_outage, site_outage] = []" by blast
  ultimately show ?thesis by blast
qed

subsection \<open>The SMTP greeting\<close>

text \<open>
  C9. In every run of the smtp check at most one \<^verbatim>\<open>EHLO\<close> is written. A handler
  writes it exactly when it receives a chunk that begins with \<^verbatim>\<open>220\<close> while the
  greeting flag is unset; once a chunk has set the flag, nothing more is written
  whatever follows. A chunk that begins with \<^verbatim>\<open>250\<close> records the \<^verbatim>\<open>readable\<close>
  timestamp and ends the connection, and the close that follows sets status code \<open>0\<close>.
\<close>

theorem ehlo_once:
  assumes "prefix ''220'' greeting" and "\<not> smtpFlags_greeting s" and "prefix ''250'' reply"
  shows "length (socket_written (smtp_run es (smtp_init tg t0))) \<le> 1 \<and>
         socket_written (smtp_on e now u) =
           (case e of
              SockData chunk \<Rightarrow>
                if prefix ''220'' chunk \<and> \<not> smtpFlags_greeting u
                then socket_written u @ [ehlo] else socket_written u
            | _ \<Rightarrow> socket_written u) \<and>
         (\<forall>rest. socket_written (smtp_run ((SockData greeting, now) # rest) s)
                   = socket_written s @ [ehlo]) \<and>
         timings (pdata (smtp_on (SockData reply) now u)) ''readable'' = Some now \<and>
         socket_ended (smtp_on (SockData reply) now u) \<and>
         statusCode (pdata (smtp_on SockClose now' (smtp_on (SockData reply) now u))) = Some 0 \<and>
         timings (pdata (smtp_on SockClose now' (smtp_on (SockData reply) now u))) ''readable''
           = Some now"
proof -
  have "greeted (smtp_run es (smtp_init tg t0))"
    by (rule smtp_run_greeted [OF smtp_init_greeted])
  then have once: "length (socket_written (smtp_run es (smtp_init tg t0))) \<le> 1"
    by (simp add: greeted_def)
  let ?s = "smtp_on (SockData greeting) now s"
  from assms(1,2) have w: "socket_written ?s = socket_written s @ [ehlo]"
    and f: "smtpFlags_greeting ?s" by simp_all
  from smtp_run_written_flag [OF f] w
  have sent: "\<forall>rest. socket_written (smtp_run ((SockData greeting, now) # rest) s)
                   = socket_written s @ [ehlo]"
    by simp
  from assms(3) not_220_and_250 [OF assms(3)]
  have reply: "timings (pdata (smtp_on (SockData reply) now u)) ''readable'' = Some now"
    "socket_ended (smtp_on (SockData reply) now u)"
    "statusCode (pdata (smtp_on SockClose now' (smtp_on (SockData reply) now u))) = Some 0"
    "timings (pdata (smtp_on SockClose now' (smtp_on (SockData reply) now u))) ''readable'' = Some now"
    by (simp_all add: resolve_def finalize_def record_timing_def)
  from once smtp_on_written [of e now u] sent reply show ?thesis by simp
qed

theorem ehlo_once_witness:
  "length (socket_written (smtp_run
      [(SockData ''220 mx ESMTP'', (0, 1000000)), (SockData ''220 mx ESMTP'', (0, 2000000)),
       (SockData ''250 OK'', (0, 3000000)), (SockClose, (0, 4000000))]
      (smtp_init sample_target (0, 0)))) \<le> 1 \<and>
   (\<forall>rest. socket_written (smtp_run ((SockData ''220 mx ESMTP'', (0, 1000000)) # rest)
                                    (smtp_init sample_target (0, 0))) = [ehlo]) \<and>
   statusCode (pdata (smtp_on SockClose (0, 4000000)
      (smtp_on (SockData ''250 OK'') (0, 1000000) (smtp_init sample_target (0, 0))))) = Some 0"
proof -
  have "prefix ''220'' ''220 mx ESMTP''"
    and "\<not> smtpFlags_greeting (smtp_init sample_target (0, 0))"
    and "prefix ''250'' ''250 OK''"
    by (simp_all add: smtp_init_def)
  from ehlo_once [OF this,
      of "[(SockData ''220 mx ESMTP'', (0, 1000000)), (SockData ''220 mx ESMTP'', (0, 2000000)),
           (SockData ''250 OK'', (0, 3000000)), (SockClose, (0, 4000000))]"
         sample_target "(0, 0)" SockConnect "(0, 1000000)" "smtp_init sample_target (0, 0)"
         "(0, 4000000)"]
  show ?thesis by (simp add: smtp_init_def)
qed

end
